theory Spec2Isabelle
  imports Main
begin

section \<open>The landing page component of \<open>frontend/src/App.js\<close>\<close>

text \<open>
  The repository's only source file defines one React function component, \<open>App\<close>, whose
  body is a single \<open>return\<close> of a JSX literal. The embedding follows the way JavaScript
  builds the value of such a literal:
  \<^item> the markup as it is written in the file, with the text between the tags kept
    character by character (\<open>jsx\<close>);
  \<^item> the JSX rule for text between tags, which trims lines and drops text made of line
    breaks and indentation only (\<open>jsx_text\<close>);
  \<^item> the element tree the function returns (\<open>node\<close>): every element has its tag, its
    attributes in the order written, and its children.

  Strings are byte lists holding the UTF-8 encoding the source file has on disk. All text
  of the component is ASCII except the two code points before \<open>Welcome\<close>
  (U+1F3CE, racing car, and U+FE0F, variation selector 16), which are seven bytes.

  The file's two other statements, \<open>import "./App.css"\<close> and \<open>export default App\<close>, run
  when the module is loaded, not when \<open>App\<close> is invoked, and are not part of the function.
\<close>

subsection \<open>Markup and element trees\<close>

datatype jsx =
    JSXText string
  | JSXElement string "(string \<times> string) list" "jsx list"

datatype node =
    Text string
  | Element string "(string \<times> string) list" "node list"

subsection \<open>Text between tags\<close>

text \<open>
  JSX text is split into lines (the file ends its lines with LF). Tabs count as spaces.
  Every line but the first loses its leading spaces, every line but the last loses its
  trailing spaces, lines that are empty afterwards disappear, and the lines that remain
  are joined by one space. Text that is empty after that produces no child at all. The
  text of this file holds no character reference (\<open>&...;\<close>), so none is decoded.
\<close>

definition LF :: char where
  "LF = CHR 0x0A"

definition TAB :: char where
  "TAB = CHR 0x09"

definition SP :: char where
  "SP = CHR 0x20"

fun split_where :: "(char \<Rightarrow> bool) \<Rightarrow> string \<Rightarrow> string list" where
  "split_where sep [] = [[]]"
| "split_where sep (c # cs) =
     (if sep c then [] # split_where sep cs
      else (case split_where sep cs of
              [] \<Rightarrow> [[c]]
            | l # ls \<Rightarrow> (c # l) # ls))"

definition split_lines :: "string \<Rightarrow> string list" where
  "split_lines s = split_where (\<lambda>c. c = LF) s"

definition tabs_to_spaces :: "string \<Rightarrow> string" where
  "tabs_to_spaces l = map (\<lambda>c. if c = TAB then SP else c) l"

definition strip_leading :: "string \<Rightarrow> string" where
  "strip_leading l = dropWhile (\<lambda>c. c = SP) l"

definition strip_trailing :: "string \<Rightarrow> string" where
  "strip_trailing l = rev (dropWhile (\<lambda>c. c = SP) (rev l))"

definition has_text :: "string \<Rightarrow> bool" where
  "has_text l = (filter (\<lambda>c. c \<noteq> SP \<and> c \<noteq> TAB) l \<noteq> [])"

text \<open>The index of the last line holding something else than spaces and tabs, 0 if none.\<close>

fun last_non_empty_line :: "nat \<Rightarrow> nat \<Rightarrow> string list \<Rightarrow> nat" where
  "last_non_empty_line i found [] = found"
| "last_non_empty_line i found (l # ls) =
     last_non_empty_line (Suc i) (if has_text l then i else found) ls"

fun clean_lines :: "nat \<Rightarrow> nat \<Rightarrow> nat \<Rightarrow> string list \<Rightarrow> string" where
  "clean_lines i last_line last_text [] = []"
| "clean_lines i last_line last_text (l # ls) =
     (let t0 = tabs_to_spaces l;
          t1 = (if i = 0 then t0 else strip_leading t0);
          t2 = (if i = last_line then t1 else strip_trailing t1);
          out = (if t2 = [] then []
                 else if i = last_text then t2
                 else t2 @ [SP])
      in out @ clean_lines (Suc i) last_line last_text ls)"

definition jsx_text :: "string \<Rightarrow> string option" where
  "jsx_text s =
     (let ls = split_lines s;
          str = clean_lines 0 (length ls - 1) (last_non_empty_line 0 0 ls) ls
      in if str = [] then None else Some str)"

subsection \<open>Evaluating markup\<close>

text \<open>
  An element expression evaluates to an element with the tag and attributes written and
  the values of its children in order; a text child contributes its cleaned text, or
  nothing.
\<close>

fun eval_child :: "jsx \<Rightarrow> node list"
  and eval_children :: "jsx list \<Rightarrow> node list" where
  "eval_child (JSXText s) = (case jsx_text s of None \<Rightarrow> [] | Some t \<Rightarrow> [Text t])"
| "eval_child (JSXElement tag attrs cs) = [Element tag attrs (eval_children cs)]"
| "eval_children [] = []"
| "eval_children (c # cs) = eval_child c @ eval_children cs"

definition createElement :: "string \<Rightarrow> (string \<times> string) list \<Rightarrow> jsx list \<Rightarrow> node" where
  "createElement tag attrs cs = Element tag attrs (eval_children cs)"

subsection \<open>The component\<close>

text \<open>A line break followed by \<open>n\<close> spaces of indentation, as between the tags of the file.\<close>

definition nl :: "nat \<Rightarrow> string" where
  "nl n = LF # replicate n SP"

text \<open>The UTF-8 bytes of U+1F3CE U+FE0F.\<close>

definition racing_car :: string where
  "racing_car = [CHR 0xF0, CHR 0x9F, CHR 0x8F, CHR 0x8E, CHR 0xEF, CHR 0xB8, CHR 0x8F]"

text \<open>
  \<^verbatim>\<open>
  function App() {
    return (
      <div className="App">
        <header className="App-header">
          <h1>(racing car) Welcome to the Formula 1 Fan Hub</h1>
          <p>Speed. Strategy. Adrenaline.</p>
          <a
            className="f1-link"
            href="https://www.formula1.com"
            target="_blank"
            rel="noreferrer"
          >
            Visit Official F1 Website
          </a>
        </header>
      </div>
    );
  }
  \<close>
  The function takes no parameter and reads no variable, so its argument is \<open>unit\<close>.
  Its body is the \<open>return\<close> alone: no assignment, no \<open>throw\<close>, no embedded expression.
  The embedding is therefore a constant of HOL. That it returns, returns the same tree
  each time and changes nothing is the shape of this definition, not a theorem about it.
\<close>

definition App :: "unit \<Rightarrow> node" where
  "App _ =
     createElement ''div'' [(''className'', ''App'')]
       [JSXText (nl 6),
        JSXElement ''header'' [(''className'', ''App-header'')]
          [JSXText (nl 8),
           JSXElement ''h1'' []
             [JSXText (racing_car @ '' Welcome to the Formula 1 Fan Hub'')],
           JSXText (nl 8),
           JSXElement ''p'' [] [JSXText ''Speed. Strategy. Adrenaline.''],
           JSXText (nl 8),
           JSXElement ''a''
             [(''className'', ''f1-link''),
              (''href'', ''https://www.formula1.com''),
              (''target'', ''_blank''),
              (''rel'', ''noreferrer'')]
             [JSXText (nl 10 @ ''Visit Official F1 Website'' @ nl 8)],
           JSXText (nl 6)],
        JSXText (nl 4)]"

subsection \<open>Reading a tree\<close>

text \<open>
  The vocabulary the properties are stated in: the elements with a given tag in document
  order, an attribute of an element, the children of an element and the text inside it.
\<close>

fun elements_by_tag :: "string \<Rightarrow> node \<Rightarrow> node list" where
  "elements_by_tag t (Text s) = []"
| "elements_by_tag t (Element tag attrs cs) =
     (if tag = t then [Element tag attrs cs] else []) @ concat (map (elements_by_tag t) cs)"

fun text_content :: "node \<Rightarrow> string" where
  "text_content (Text s) = s"
| "text_content (Element tag attrs cs) = concat (map text_content cs)"

fun tag_of :: "node \<Rightarrow> string option" where
  "tag_of (Text s) = None"
| "tag_of (Element tag attrs cs) = Some tag"

fun children_of :: "node \<Rightarrow> node list" where
  "children_of (Text s) = []"
| "children_of (Element tag attrs cs) = cs"

fun attr :: "string \<Rightarrow> node \<Rightarrow> string option" where
  "attr k (Text s) = None"
| "attr k (Element tag attrs cs) = map_of attrs k"

text \<open>Every element of a tree, and every piece of text in it, in document order.\<close>

fun all_elements :: "node \<Rightarrow> node list" where
  "all_elements (Text s) = []"
| "all_elements (Element tag attrs cs) =
     Element tag attrs cs # concat (map all_elements cs)"

fun all_texts :: "node \<Rightarrow> string list" where
  "all_texts (Text s) = [s]"
| "all_texts (Element tag attrs cs) = concat (map all_texts cs)"

text \<open>
  The value of a \<open>rel\<close> attribute is a set of tokens separated by ASCII whitespace.
\<close>

definition is_ascii_whitespace :: "char \<Rightarrow> bool" where
  "is_ascii_whitespace c = (c = SP \<or> c = TAB \<or> c = LF \<or> c = CHR 0x0C \<or> c = CHR 0x0D)"

definition tokens :: "string \<Rightarrow> string list" where
  "tokens s = filter (\<lambda>t. t \<noteq> []) (split_where is_ascii_whitespace s)"

definition rel_tokens :: "node \<Rightarrow> string list" where
  "rel_tokens n = (case attr ''rel'' n of None \<Rightarrow> [] | Some v \<Rightarrow> tokens v)"

section \<open>The returned tree\<close>

subsection \<open>The text rule on the text of the file\<close>

lemma split_where_no_sep: "filter sep s = [] \<Longrightarrow> split_where sep s = [s]"
  by (induction s) (auto split: if_splits)

lemma split_lines_indent: "split_lines (nl n) = [[], replicate n SP]"
proof -
  have "filter (\<lambda>c. c = LF) (replicate n SP) = []"
    by (induction n) (auto simp: SP_def LF_def)
  then show ?thesis
    by (simp add: split_lines_def nl_def split_where_no_sep)
qed

lemma strip_leading_indent: "strip_leading (replicate n SP) = []"
  by (induction n) (auto simp: strip_leading_def)

text \<open>A line break with indentation, whatever its width, produces no child.\<close>

lemma jsx_text_indent: "jsx_text (nl n) = None"
  by (simp add: jsx_text_def split_lines_indent tabs_to_spaces_def strip_leading_indent
      strip_trailing_def has_text_def)

lemma jsx_text_title:
  "jsx_text (racing_car @ '' Welcome to the Formula 1 Fan Hub'') =
     Some (racing_car @ '' Welcome to the Formula 1 Fan Hub'')"
  by code_simp

lemma jsx_text_subtitle:
  "jsx_text ''Speed. Strategy. Adrenaline.'' = Some ''Speed. Strategy. Adrenaline.''"
  by code_simp

lemma jsx_text_link:
  "jsx_text (nl 10 @ ''Visit Official F1 Website'' @ nl 8) = Some ''Visit Official F1 Website''"
  by code_simp

subsection \<open>The tree\<close>

lemma App_value:
  "App u =
     Element ''div'' [(''className'', ''App'')]
       [Element ''header'' [(''className'', ''App-header'')]
          [Element ''h1'' [] [Text (racing_car @ '' Welcome to the Formula 1 Fan Hub'')],
           Element ''p'' [] [Text ''Speed. Strategy. Adrenaline.''],
           Element ''a''
             [(''className'', ''f1-link''),
              (''href'', ''https://www.formula1.com''),
              (''target'', ''_blank''),
              (''rel'', ''noreferrer'')]
             [Text ''Visit Official F1 Website'']]]"
  unfolding App_def createElement_def eval_child.simps eval_children.simps
    jsx_text_indent jsx_text_title jsx_text_subtitle jsx_text_link
  by simp

lemma tokens_noreferrer: "tokens ''noreferrer'' = [''noreferrer'']"
  by code_simp

section \<open>Properties of the rendered view\<close>

text \<open>
  C1. The tree returned by \<open>App\<close> contains exactly one anchor element; its \<open>href\<close> is
  \<open>https://www.formula1.com\<close>, its \<open>target\<close> is \<open>_blank\<close> (a new browsing context), and
  its \<open>rel\<close> attribute suppresses the referrer: it is \<open>noreferrer\<close>, so the token
  \<open>noreferrer\<close> is among its tokens.
\<close>

theorem App_single_link:
  "\<exists>a. elements_by_tag ''a'' (App u) = [a]
     \<and> attr ''href'' a = Some ''https://www.formula1.com''
     \<and> attr ''target'' a = Some ''_blank''
     \<and> attr ''rel'' a = Some ''noreferrer''
     \<and> ''noreferrer'' \<in> set (rel_tokens a)"
  by (simp add: App_value rel_tokens_def tokens_noreferrer)

text \<open>
  C3. The tree returned by \<open>App\<close> has one \<open>h1\<close> element, and the text of that heading is the
  racing car emoji followed by \<open> Welcome to the Formula 1 Fan Hub\<close>.
\<close>

theorem App_heading_text:
  "map text_content (elements_by_tag ''h1'' (App u)) =
     [racing_car @ '' Welcome to the Formula 1 Fan Hub'']"
  by (simp add: App_value)

text \<open>
  C4. The tree returned by \<open>App\<close> has one paragraph, the subtitle, and its text is
  \<open>Speed. Strategy. Adrenaline.\<close>
\<close>

theorem App_subtitle_text:
  "map text_content (elements_by_tag ''p'' (App u)) = [''Speed. Strategy. Adrenaline.'']"
  by (simp add: App_value)

text \<open>
  C5. The text displayed by the single anchor of the tree is \<open>Visit Official F1 Website\<close>:
  the line breaks and indentation around it in the file are not part of it.
\<close>

theorem App_link_text:
  "map text_content (elements_by_tag ''a'' (App u)) = [''Visit Official F1 Website'']"
  by (simp add: App_value)

text \<open>
  C6. Rendered with no arguments, the tree has exactly one container, one heading block,
  two text lines and one link, and nothing else. Its elements are, in document order, the
  \<open>div\<close> container (the root), the \<open>header\<close> block (the root's only child), the \<open>h1\<close>
  title, the \<open>p\<close> subtitle and the \<open>a\<close> link (the header's children). Its pieces of text
  are the title, the subtitle and the link text, one in each of \<open>h1\<close>, \<open>p\<close> and \<open>a\<close>; the
  visible text of the link is \<open>Visit Official F1 Website\<close>.
\<close>

theorem App_scenario:
  "map tag_of (all_elements (App ())) =
     [Some ''div'', Some ''header'', Some ''h1'', Some ''p'', Some ''a'']
   \<and> all_texts (App ()) =
       [racing_car @ '' Welcome to the Formula 1 Fan Hub'',
        ''Speed. Strategy. Adrenaline.'',
        ''Visit Official F1 Website'']
   \<and> tag_of (App ()) = Some ''div''
   \<and> map tag_of (children_of (App ())) = [Some ''header'']
   \<and> map (\<lambda>h. map tag_of (children_of h)) (elements_by_tag ''header'' (App ())) =
       [[Some ''h1'', Some ''p'', Some ''a'']]
   \<and> length (elements_by_tag ''div'' (App ())) = 1
   \<and> length (elements_by_tag ''header'' (App ())) = 1
   \<and> map all_texts (elements_by_tag ''h1'' (App ())) =
       [[racing_car @ '' Welcome to the Formula 1 Fan Hub'']]
   \<and> map all_texts (elements_by_tag ''p'' (App ())) = [[''Speed. Strategy. Adrenaline.'']]
   \<and> length (elements_by_tag ''h1'' (App ()) @ elements_by_tag ''p'' (App ())) = 2
   \<and> length (elements_by_tag ''a'' (App ())) = 1
   \<and> map all_texts (elements_by_tag ''a'' (App ())) = [[''Visit Official F1 Website'']]
   \<and> map text_content (elements_by_tag ''a'' (App ())) = [''Visit Official F1 Website'']"
  by (simp add: App_value)

text \<open>
  C9. The \<open>rel\<close> attribute of the single anchor is exactly \<open>noreferrer\<close>: one token, and no
  \<open>noopener\<close> token beside it.
\<close>

theorem App_link_rel:
  "map (attr ''rel'') (elements_by_tag ''a'' (App u)) = [Some ''noreferrer'']
   \<and> map rel_tokens (elements_by_tag ''a'' (App u)) = [[''noreferrer'']]
   \<and> ''noopener'' \<notin> set (concat (map rel_tokens (elements_by_tag ''a'' (App u))))"
  by (simp add: App_value rel_tokens_def tokens_noreferrer)

text \<open>
  C10. The heading block has exactly three children, in this order: the \<open>h1\<close> title, the
  subtitle paragraph, the anchor; two invocations give the same children in the same order.
\<close>

theorem App_header_children:
  "map (\<lambda>h. map tag_of (children_of h)) (elements_by_tag ''header'' (App u)) =
     [[Some ''h1'', Some ''p'', Some ''a'']]
   \<and> map children_of (elements_by_tag ''header'' (App u)) =
       map children_of (elements_by_tag ''header'' (App v))"
  by (simp add: App_value)

end
